theory Spec2Isabelle
  imports Main "HOL-Library.Word"
begin

unbundle bit_operations_syntax

section \<open>The MP/M II emulator's XIOS trap dispatcher (src/src/xios.cpp)\<close>

subsection \<open>Register pairs of the CPU collaborator\<close>

text \<open>
  The CPU's register pairs are 16-bit values with a high and a low byte
  (\<open>get_pair16\<close>, \<open>get_high\<close>, \<open>get_low\<close>, \<open>set_high\<close> of qkz80's register pair).
\<close>

type_synonym u8 = "8 word"
type_synonym u16 = "16 word"

definition get_high :: "u16 \<Rightarrow> u8" where
  "get_high w = ucast (drop_bit 8 w)"

definition get_low :: "u16 \<Rightarrow> u8" where
  "get_low w = ucast w"

definition set_high :: "u16 \<Rightarrow> u8 \<Rightarrow> u16" where
  "set_high w b = (w AND 0x00FF) OR push_bit 8 (ucast b)"

record z80_regs =
  AF :: u16
  BC :: u16
  DE :: u16
  HL :: u16
  SP :: u16
  PC :: u16
  IFF1 :: u8
  IFF2 :: u8

subsection \<open>External collaborators\<close>

text \<open>
  The disk engine (\<open>DiskSystem::instance()\<close>) and the console registry
  (\<open>ConsoleManager::instance()\<close> and the \<open>Console\<close> objects it hands out) are
  singletons outside this unit. Each is represented by the sequence of calls made on it,
  oldest first; what it answers is supplied by the environment as a function of the calls
  made so far. \<open>get\<close> and \<open>const_status\<close> are queries and are not recorded.
\<close>

datatype disk_call =
    DSelect u8
  | DSetTrack u16
  | DSetSector u16
  | DSetDma u16
  | DRead
  | DWrite

datatype con_call =
    ConRead int
  | ConWrite int u8
  | ConInit

text \<open>
  Their headers (banked_mem.h, disk.h, console.h, qkz80.h) are not among the sources, so
  their operations are parameters of the model, with the signatures the calls in xios.cpp
  and the specification's interface list give them; guest addresses are 16 bits wide.
  The environment: the banked memory's byte fetch and bank select over an abstract memory
  \<open>'m\<close>, the answers of the disk engine (\<open>select\<close> accepted or not, the status code of
  \<open>read\<close> and \<open>write\<close> together with the memory they leave), the answers of the console
  registry (\<open>get\<close> non-null or not, \<open>const_status\<close>, \<open>read_char\<close>), and the constant
  \<open>MAX_CONSOLES\<close>.
\<close>

record 'm env =
  fetch_mem :: "'m \<Rightarrow> u16 \<Rightarrow> u8"
  select_bank :: "'m \<Rightarrow> u8 \<Rightarrow> 'm"
  ds_select :: "disk_call list \<Rightarrow> u8 \<Rightarrow> bool"
  ds_read :: "disk_call list \<Rightarrow> 'm \<Rightarrow> int \<times> 'm"
  ds_write :: "disk_call list \<Rightarrow> 'm \<Rightarrow> int \<times> 'm"
  con_get :: "con_call list \<Rightarrow> int \<Rightarrow> bool"
  con_const_status :: "con_call list \<Rightarrow> int \<Rightarrow> u8"
  con_read_char :: "con_call list \<Rightarrow> int \<Rightarrow> u8"
  MAX_CONSOLES :: u8

subsection \<open>Entry-point offsets\<close>

text \<open>
  Modelled from the spec: the offsets \<open>XIOS_BOOT\<close> .. \<open>XIOS_IDLE\<close> are declared in
  xios.h, which is not among the sources. They are 3 times the slot index, in the order of
  the jump table (xios.asm lists the same offsets, 00H to 48H).
\<close>

definition XIOS_BOOT :: u16 where "XIOS_BOOT = 0x00"
definition XIOS_WBOOT :: u16 where "XIOS_WBOOT = 0x03"
definition XIOS_CONST :: u16 where "XIOS_CONST = 0x06"
definition XIOS_CONIN :: u16 where "XIOS_CONIN = 0x09"
definition XIOS_CONOUT :: u16 where "XIOS_CONOUT = 0x0C"
definition XIOS_LIST :: u16 where "XIOS_LIST = 0x0F"
definition XIOS_PUNCH :: u16 where "XIOS_PUNCH = 0x12"
definition XIOS_READER :: u16 where "XIOS_READER = 0x15"
definition XIOS_HOME :: u16 where "XIOS_HOME = 0x18"
definition XIOS_SELDSK :: u16 where "XIOS_SELDSK = 0x1B"
definition XIOS_SETTRK :: u16 where "XIOS_SETTRK = 0x1E"
definition XIOS_SETSEC :: u16 where "XIOS_SETSEC = 0x21"
definition XIOS_SETDMA :: u16 where "XIOS_SETDMA = 0x24"
definition XIOS_READ :: u16 where "XIOS_READ = 0x27"
definition XIOS_WRITE :: u16 where "XIOS_WRITE = 0x2A"
definition XIOS_LISTST :: u16 where "XIOS_LISTST = 0x2D"
definition XIOS_SECTRAN :: u16 where "XIOS_SECTRAN = 0x30"
definition XIOS_SELMEMORY :: u16 where "XIOS_SELMEMORY = 0x33"
definition XIOS_POLLDEVICE :: u16 where "XIOS_POLLDEVICE = 0x36"
definition XIOS_STARTCLOCK :: u16 where "XIOS_STARTCLOCK = 0x39"
definition XIOS_STOPCLOCK :: u16 where "XIOS_STOPCLOCK = 0x3C"
definition XIOS_EXITREGION :: u16 where "XIOS_EXITREGION = 0x3F"
definition XIOS_MAXCONSOLE :: u16 where "XIOS_MAXCONSOLE = 0x42"
definition XIOS_SYSTEMINIT :: u16 where "XIOS_SYSTEMINIT = 0x45"
definition XIOS_IDLE :: u16 where "XIOS_IDLE = 0x48"

subsection \<open>The dispatcher's state\<close>

text \<open>
  The members of class \<open>XIOS\<close>, with the objects behind its two pointers (\<open>cpu_\<close>,
  \<open>mem_\<close>) and behind the two singletons it calls held in the same record.
\<close>

record 'm xios =
  regs :: z80_regs
  mem :: 'm
  disk :: "disk_call list"
  consoles :: "con_call list"
  xios_base :: u16
  ldrbios_base :: u16
  bdos_stub :: u16
  current_disk :: u8
  current_track :: u16
  current_sector :: u16
  dma_addr :: u16
  tick_enabled :: bool
  preempted :: bool

text \<open>The constructor \<open>XIOS::XIOS(cpu, mem)\<close>.\<close>

definition XIOS_new :: "z80_regs \<Rightarrow> 'm \<Rightarrow> 'm xios" where
  "XIOS_new cpu m =
     \<lparr> regs = cpu, mem = m, disk = [], consoles = [],
       xios_base = 0xFC00, ldrbios_base = 0x1700, bdos_stub = 0x0D06,
       current_disk = 0, current_track = 0, current_sector = 0, dma_addr = 0x0080,
       tick_enabled = False, preempted = False \<rparr>"

subsection \<open>Recognising a trap\<close>

text \<open>
  \<open>XIOS::is_xios_call\<close>. The bound \<open>xios_base_ + 0x100\<close> is computed in \<open>int\<close>, so it does
  not wrap at 16 bits; the offset is taken only where \<open>pc\<close> is at or above the base.
\<close>

definition is_xios_call :: "'m xios \<Rightarrow> u16 \<Rightarrow> bool" where
  "is_xios_call s pc =
     (if xios_base s \<le> pc \<and> unat pc < unat (xios_base s) + 0x100 then
        (let offset = pc - xios_base s
         in offset \<le> XIOS_IDLE \<and> unat offset mod 3 = 0)
      else if ldrbios_base s \<le> pc \<and> unat pc < unat (ldrbios_base s) + 0x100 then
        (let offset = pc - ldrbios_base s
         in offset \<le> XIOS_SECTRAN \<and> unat offset mod 3 = 0)
      else False)"

subsection \<open>The synthetic return\<close>

text \<open>Register writes of the handlers: \<open>cpu_->regs.AF.set_high(v)\<close> and
  \<open>cpu_->regs.HL.set_pair16(v)\<close>.\<close>

definition AF_set_high :: "u8 \<Rightarrow> 'm xios \<Rightarrow> 'm xios" where
  "AF_set_high v s = s\<lparr>regs := (regs s)\<lparr>AF := set_high (AF (regs s)) v\<rparr>\<rparr>"

definition HL_set_pair16 :: "u16 \<Rightarrow> 'm xios \<Rightarrow> 'm xios" where
  "HL_set_pair16 v s = s\<lparr>regs := (regs s)\<lparr>HL := v\<rparr>\<rparr>"

text \<open>
  \<open>XIOS::do_ret\<close>: pop the return address off the guest stack. \<open>sp + 1\<close> and \<open>sp + 2\<close>
  are passed on as 16-bit values, so they wrap at 0xFFFF.
\<close>

definition do_ret :: "'m env \<Rightarrow> 'm xios \<Rightarrow> 'm xios" where
  "do_ret env s =
     (let sp = SP (regs s);
          lo = fetch_mem env (mem s) sp;
          hi = fetch_mem env (mem s) (sp + 1)
      in s\<lparr>regs := (regs s)\<lparr>SP := sp + 2, PC := push_bit 8 (ucast hi) OR ucast lo\<rparr>\<rparr>)"

subsection \<open>Console handlers\<close>

definition do_const :: "'m env \<Rightarrow> 'm xios \<Rightarrow> 'm xios" where
  "do_const env s =
     (let console = uint (get_high (DE (regs s)))
      in if con_get env (consoles s) console
         then do_ret env (AF_set_high (con_const_status env (consoles s) console) s)
         else do_ret env (AF_set_high 0x00 s))"

definition do_conin :: "'m env \<Rightarrow> 'm xios \<Rightarrow> 'm xios" where
  "do_conin env s =
     (let console = uint (get_high (DE (regs s)))
      in if con_get env (consoles s) console
         then do_ret env (AF_set_high (con_read_char env (consoles s) console)
                (s\<lparr>consoles := consoles s @ [ConRead console]\<rparr>))
         else do_ret env (AF_set_high 0x1A s))"

definition do_conout :: "'m env \<Rightarrow> 'm xios \<Rightarrow> 'm xios" where
  "do_conout env s =
     (let console = (if xios_base s \<le> PC (regs s) then uint (get_high (DE (regs s))) else 0);
          ch = get_low (BC (regs s))
      in if con_get env (consoles s) console
         then do_ret env (s\<lparr>consoles := consoles s @ [ConWrite console ch]\<rparr>)
         else do_ret env s)"

definition do_list :: "'m env \<Rightarrow> 'm xios \<Rightarrow> 'm xios" where
  "do_list env s = do_ret env s"

definition do_punch :: "'m env \<Rightarrow> 'm xios \<Rightarrow> 'm xios" where
  "do_punch env s = do_ret env s"

definition do_reader :: "'m env \<Rightarrow> 'm xios \<Rightarrow> 'm xios" where
  "do_reader env s = do_ret env (AF_set_high 0x1A s)"

definition do_listst :: "'m env \<Rightarrow> 'm xios \<Rightarrow> 'm xios" where
  "do_listst env s = do_ret env (AF_set_high 0xFF s)"

subsection \<open>Disk handlers\<close>

definition do_home :: "'m env \<Rightarrow> 'm xios \<Rightarrow> 'm xios" where
  "do_home env s = do_ret env (s\<lparr>current_track := 0\<rparr>)"

text \<open>
  \<open>XIOS::do_seldsk\<close>. The address \<open>xios_base_ + 0x100 + (disk * 16)\<close> is computed in
  \<open>int\<close> (the disk number is not cut to 8 bits by the multiplication) and stored in a
  \<open>uint16_t\<close>.
\<close>

definition do_seldsk :: "'m env \<Rightarrow> 'm xios \<Rightarrow> 'm xios" where
  "do_seldsk env s =
     (let dsk = get_low (BC (regs s));
          ok = ds_select env (disk s) dsk;
          s1 = s\<lparr>disk := disk s @ [DSelect dsk]\<rparr>
      in if \<not> ok then do_ret env (HL_set_pair16 0x0000 s1)
         else
           (let s2 = s1\<lparr>current_disk := dsk\<rparr>;
                dph_addr = xios_base s2 + 0x100 + ucast dsk * 16
            in do_ret env (HL_set_pair16 dph_addr s2)))"

definition do_settrk :: "'m env \<Rightarrow> 'm xios \<Rightarrow> 'm xios" where
  "do_settrk env s = do_ret env (s\<lparr>current_track := BC (regs s)\<rparr>)"

definition do_setsec :: "'m env \<Rightarrow> 'm xios \<Rightarrow> 'm xios" where
  "do_setsec env s = do_ret env (s\<lparr>current_sector := BC (regs s)\<rparr>)"

definition do_setdma :: "'m env \<Rightarrow> 'm xios \<Rightarrow> 'm xios" where
  "do_setdma env s = do_ret env (s\<lparr>dma_addr := BC (regs s)\<rparr>)"

text \<open>
  \<open>XIOS::do_read\<close> and \<open>XIOS::do_write\<close>: the three latched values go to the disk engine,
  then the transfer runs on the memory; its \<open>int\<close> result is cut to the 8 bits of A.
\<close>

definition do_read :: "'m env \<Rightarrow> 'm xios \<Rightarrow> 'm xios" where
  "do_read env s =
     (let d = disk s @ [DSetTrack (current_track s)];
          d = d @ [DSetSector (current_sector s)];
          d = d @ [DSetDma (dma_addr s)];
          (result, m) = ds_read env d (mem s)
      in do_ret env (AF_set_high (word_of_int result) (s\<lparr>disk := d @ [DRead], mem := m\<rparr>)))"

definition do_write :: "'m env \<Rightarrow> 'm xios \<Rightarrow> 'm xios" where
  "do_write env s =
     (let d = disk s @ [DSetTrack (current_track s)];
          d = d @ [DSetSector (current_sector s)];
          d = d @ [DSetDma (dma_addr s)];
          (result, m) = ds_write env d (mem s)
      in do_ret env (AF_set_high (word_of_int result) (s\<lparr>disk := d @ [DWrite], mem := m\<rparr>)))"

definition do_sectran :: "'m env \<Rightarrow> 'm xios \<Rightarrow> 'm xios" where
  "do_sectran env s = do_ret env (HL_set_pair16 (BC (regs s)) s)"

subsection \<open>Extended entries\<close>

definition do_selmemory :: "'m env \<Rightarrow> 'm xios \<Rightarrow> 'm xios" where
  "do_selmemory env s =
     (let desc_addr = BC (regs s);
          bank = fetch_mem env (mem s) (desc_addr + 3)
      in do_ret env (s\<lparr>mem := select_bank env (mem s) bank\<rparr>))"

definition do_polldevice :: "'m env \<Rightarrow> 'm xios \<Rightarrow> 'm xios" where
  "do_polldevice env s =
     (let device = get_low (BC (regs s));
          result =
            (if device = 0 then 0xFF
             else if 1 \<le> device \<and> device \<le> 4 then 0xFF
             else if 5 \<le> device \<and> device \<le> 8 then
               (let console = uint device - 5
                in if con_get env (consoles s) console
                      \<and> con_const_status env (consoles s) console \<noteq> 0
                   then 0xFF else 0x00)
             else 0x00)
      in do_ret env (AF_set_high result s))"

definition do_startclock :: "'m env \<Rightarrow> 'm xios \<Rightarrow> 'm xios" where
  "do_startclock env s = do_ret env (s\<lparr>tick_enabled := True\<rparr>)"

definition do_stopclock :: "'m env \<Rightarrow> 'm xios \<Rightarrow> 'm xios" where
  "do_stopclock env s = do_ret env (s\<lparr>tick_enabled := False\<rparr>)"

definition do_exitregion :: "'m env \<Rightarrow> 'm xios \<Rightarrow> 'm xios" where
  "do_exitregion env s =
     (if \<not> preempted s
      then do_ret env (s\<lparr>regs := (regs s)\<lparr>IFF1 := 1, IFF2 := 1\<rparr>\<rparr>)
      else do_ret env s)"

definition do_maxconsole :: "'m env \<Rightarrow> 'm xios \<Rightarrow> 'm xios" where
  "do_maxconsole env s = do_ret env (AF_set_high (MAX_CONSOLES env) s)"

definition do_systeminit :: "'m env \<Rightarrow> 'm xios \<Rightarrow> 'm xios" where
  "do_systeminit env s = do_ret env (s\<lparr>consoles := consoles s @ [ConInit]\<rparr>)"

definition do_idle :: "'m env \<Rightarrow> 'm xios \<Rightarrow> 'm xios" where
  "do_idle env s = do_ret env s"

definition do_boot :: "'m env \<Rightarrow> 'm xios \<Rightarrow> 'm xios" where
  "do_boot env s = do_ret env s"

definition do_wboot :: "'m env \<Rightarrow> 'm xios \<Rightarrow> 'm xios" where
  "do_wboot env s = do_ret env s"

subsection \<open>Dispatch\<close>

text \<open>
  \<open>XIOS::handle_call\<close> decides the table by \<open>pc < xios_base_\<close> and takes the offset from
  the base of that table; the result is the returned flag and the state left behind.
\<close>

definition is_ldrbios :: "'m xios \<Rightarrow> u16 \<Rightarrow> bool" where
  "is_ldrbios s pc = (pc < xios_base s)"

definition call_offset :: "'m xios \<Rightarrow> u16 \<Rightarrow> u16" where
  "call_offset s pc =
     (if xios_base s \<le> pc then pc - xios_base s else pc - ldrbios_base s)"

definition handle_call :: "'m env \<Rightarrow> 'm xios \<Rightarrow> u16 \<Rightarrow> bool \<times> 'm xios" where
  "handle_call env s pc =
     (if \<not> is_xios_call s pc then (False, s)
      else
        (let offset = call_offset s pc
         in if is_ldrbios s pc \<and> offset = XIOS_SELDSK then (False, s)
            else if offset = XIOS_BOOT then (True, do_boot env s)
            else if offset = XIOS_WBOOT then (True, do_wboot env s)
            else if offset = XIOS_CONST then (True, do_const env s)
            else if offset = XIOS_CONIN then (True, do_conin env s)
            else if offset = XIOS_CONOUT then (True, do_conout env s)
            else if offset = XIOS_LIST then (True, do_list env s)
            else if offset = XIOS_PUNCH then (True, do_punch env s)
            else if offset = XIOS_READER then (True, do_reader env s)
            else if offset = XIOS_HOME then (True, do_home env s)
            else if offset = XIOS_SELDSK then (True, do_seldsk env s)
            else if offset = XIOS_SETTRK then (True, do_settrk env s)
            else if offset = XIOS_SETSEC then (True, do_setsec env s)
            else if offset = XIOS_SETDMA then (True, do_setdma env s)
            else if offset = XIOS_READ then (True, do_read env s)
            else if offset = XIOS_WRITE then (True, do_write env s)
            else if offset = XIOS_LISTST then (True, do_listst env s)
            else if offset = XIOS_SECTRAN then (True, do_sectran env s)
            else if offset = XIOS_SELMEMORY then (True, do_selmemory env s)
            else if offset = XIOS_POLLDEVICE then (True, do_polldevice env s)
            else if offset = XIOS_STARTCLOCK then (True, do_startclock env s)
            else if offset = XIOS_STOPCLOCK then (True, do_stopclock env s)
            else if offset = XIOS_EXITREGION then (True, do_exitregion env s)
            else if offset = XIOS_MAXCONSOLE then (True, do_maxconsole env s)
            else if offset = XIOS_SYSTEMINIT then (True, do_systeminit env s)
            else if offset = XIOS_IDLE then (True, do_idle env s)
            else (False, s)))"

subsection \<open>The bootstrap loader's system calls\<close>

text \<open>
  The print-string loop of \<open>XIOS::do_bdos\<close> (function 9):
  \<open>for (int i = 0; i < 1000; i++) { ch = fetch_mem(addr++); if (ch == '$') break;
  con->write_char(ch); }\<close> on console 0. The result is the final value of \<open>addr\<close> and the
  calls made on the console; \<open>addr\<close> is a \<open>uint16_t\<close> and wraps.
\<close>

function print_string ::
  "'m env \<Rightarrow> 'm \<Rightarrow> nat \<Rightarrow> u16 \<Rightarrow> con_call list \<Rightarrow> u16 \<times> con_call list" where
  "print_string env m i addr c =
     (if i < 1000 then
        (let ch = fetch_mem env m addr;
             addr' = addr + 1
         in if ch = 0x24 then (addr', c)
            else print_string env m (i + 1) addr' (c @ [ConWrite 0 ch]))
      else (addr, c))"
  by pat_completeness auto
termination
  by (relation "measure (\<lambda>(env, m, i, addr, c). 1000 - i)") auto

declare print_string.simps [simp del]

text \<open>
  \<open>XIOS::do_bdos\<close>: the switch on the function number in C, then the synthetic return.
  The diagnostic line written to the host's standard error (and its static counter) is
  left out.
\<close>

definition do_bdos :: "'m env \<Rightarrow> 'm xios \<Rightarrow> 'm xios" where
  "do_bdos env s =
     (let func = get_low (BC (regs s));
          de = DE (regs s);
          con = con_get env (consoles s) 0
      in do_ret env
        (if func = 0 then s
         else if func = 1 then
           (if con then
              (let ch = con_read_char env (consoles s) 0
               in (AF_set_high ch s)\<lparr>consoles := consoles s @ [ConRead 0, ConWrite 0 ch]\<rparr>)
            else AF_set_high 0x1A s)
         else if func = 2 then
           (if con then s\<lparr>consoles := consoles s @ [ConWrite 0 (ucast (de AND 0xFF))]\<rparr>
            else s)
         else if func = 6 then
           (if de AND 0xFF = 0xFF then
              (if con \<and> con_const_status env (consoles s) 0 \<noteq> 0 then
                 (AF_set_high (con_read_char env (consoles s) 0) s)
                   \<lparr>consoles := consoles s @ [ConRead 0]\<rparr>
               else AF_set_high 0 s)
            else
              (if con then s\<lparr>consoles := consoles s @ [ConWrite 0 (ucast (de AND 0xFF))]\<rparr>
               else s))
         else if func = 9 then
           (if con then s\<lparr>consoles := snd (print_string env (mem s) 0 de (consoles s))\<rparr>
            else s)
         else if func = 11 then
           AF_set_high (if con \<and> con_const_status env (consoles s) 0 \<noteq> 0 then 0xFF else 0x00) s
         else if func = 12 then AF_set_high 0x21 (HL_set_pair16 0x0021 s)
         else if func = 13 then s\<lparr>disk := disk s @ [DSelect 0], current_disk := 0\<rparr>
         else if func = 14 then
           (let s1 = s\<lparr>current_disk := ucast (de AND 0x0F)\<rparr>;
                s2 = s1\<lparr>disk := disk s1 @ [DSelect (current_disk s1)]\<rparr>
            in AF_set_high 0 s2)
         else if func = 15 then AF_set_high 0xFF s
         else if func = 20 then AF_set_high 1 s
         else if func = 26 then s\<lparr>dma_addr := de\<rparr>
         else s))"

section \<open>The console channel (ConsoleQueue, console_queue.h)\<close>

text \<open>
  \<open>std::queue<uint8_t> queue_\<close> is a list with the front at the head; \<open>CAPACITY\<close> is the
  template parameter. Every member function holds the mutex while it touches the queue, so
  a history of the channel is a sequence of the steps below, each on the contents it finds.
\<close>

type_synonym console_queue = "u8 list"

definition available :: "console_queue \<Rightarrow> nat" where
  "available q = length q"

text \<open>\<open>CAPACITY - queue_.size()\<close> is a \<open>size_t\<close> subtraction: it is the difference only
  while the size is at most \<open>CAPACITY\<close>.\<close>

definition space :: "nat \<Rightarrow> console_queue \<Rightarrow> nat" where
  "space CAPACITY q = CAPACITY - length q"

definition full :: "nat \<Rightarrow> console_queue \<Rightarrow> bool" where
  "full CAPACITY q = (CAPACITY \<le> length q)"

definition try_read :: "console_queue \<Rightarrow> int \<times> console_queue" where
  "try_read q = (if q = [] then (- 1, q) else (uint (hd q), tl q))"

text \<open>
  The blocking \<open>read\<close>: with \<open>timeout_ms = 0\<close> it returns only once the queue is not
  empty (\<open>None\<close>: it is still waiting on these contents); with a timeout it returns -1 when
  the deadline finds the queue empty.
\<close>

definition read :: "console_queue \<Rightarrow> nat \<Rightarrow> (int \<times> console_queue) option" where
  "read q timeout_ms =
     (if timeout_ms = 0 then (if q \<noteq> [] then Some (uint (hd q), tl q) else None)
      else if q = [] then Some (- 1, q)
      else Some (uint (hd q), tl q))"

definition try_write :: "nat \<Rightarrow> console_queue \<Rightarrow> u8 \<Rightarrow> bool \<times> console_queue" where
  "try_write CAPACITY q ch = (if CAPACITY \<le> length q then (False, q) else (True, q @ [ch]))"

definition "write" :: "nat \<Rightarrow> console_queue \<Rightarrow> u8 \<Rightarrow> nat \<Rightarrow> (bool \<times> console_queue) option" where
  "write CAPACITY q ch timeout_ms =
     (if timeout_ms = 0 then (if length q < CAPACITY then Some (True, q @ [ch]) else None)
      else if \<not> length q < CAPACITY then Some (False, q)
      else Some (True, q @ [ch]))"

text \<open>\<open>write_some(data, len)\<close> with \<open>data\<close> the \<open>len\<close> bytes given; the result is
  \<open>count\<close> and the queue.\<close>

fun write_some_loop :: "nat \<Rightarrow> u8 list \<Rightarrow> nat \<Rightarrow> console_queue \<Rightarrow> nat \<times> console_queue" where
  "write_some_loop CAPACITY [] count q = (count, q)"
| "write_some_loop CAPACITY (d # ds) count q =
     (if length q < CAPACITY then write_some_loop CAPACITY ds (count + 1) (q @ [d])
      else (count, q))"

definition write_some :: "nat \<Rightarrow> console_queue \<Rightarrow> u8 list \<Rightarrow> nat \<times> console_queue" where
  "write_some CAPACITY q data = write_some_loop CAPACITY data 0 q"

text \<open>\<open>read_some(data, max_len)\<close>: the bytes stored to \<open>data\<close> (their number is the
  returned count) and the queue.\<close>

fun read_some :: "console_queue \<Rightarrow> nat \<Rightarrow> u8 list \<times> console_queue" where
  "read_some q 0 = ([], q)"
| "read_some q (Suc n) =
     (if q = [] then ([], q)
      else (let (out, q') = read_some (tl q) n in (hd q # out, q')))"

fun clear :: "console_queue \<Rightarrow> console_queue" where
  "clear [] = []"
| "clear (x # xs) = clear xs"

text \<open>
  The operations of a channel as events, and a history run from given contents. Each step
  yields the new contents, the bytes handed to the reader and the bytes taken from the
  writer. A blocking call that cannot return on the contents it finds leaves them as they
  are.
\<close>

datatype cq_op =
    TryRead
  | Read nat
  | TryWrite u8
  | Write u8 nat
  | WriteSome "u8 list"
  | ReadSome nat
  | Clear

fun cq_step :: "nat \<Rightarrow> console_queue \<Rightarrow> cq_op \<Rightarrow> console_queue \<times> u8 list \<times> u8 list" where
  "cq_step C q TryRead =
     (let (r, q') = try_read q in (q', if r = - 1 then [] else [word_of_int r], []))"
| "cq_step C q (Read t) =
     (case read q t of None \<Rightarrow> (q, [], [])
      | Some (r, q') \<Rightarrow> (q', if r = - 1 then [] else [word_of_int r], []))"
| "cq_step C q (TryWrite ch) =
     (let (ok, q') = try_write C q ch in (q', [], if ok then [ch] else []))"
| "cq_step C q (Write ch t) =
     (case write C q ch t of None \<Rightarrow> (q, [], [])
      | Some (ok, q') \<Rightarrow> (q', [], if ok then [ch] else []))"
| "cq_step C q (WriteSome data) =
     (let (count, q') = write_some C q data in (q', [], take count data))"
| "cq_step C q (ReadSome n) =
     (let (out, q') = read_some q n in (q', out, []))"
| "cq_step C q Clear = (clear q, [], [])"

fun cq_run :: "nat \<Rightarrow> console_queue \<Rightarrow> cq_op list \<Rightarrow> console_queue \<times> u8 list \<times> u8 list" where
  "cq_run C q [] = (q, [], [])"
| "cq_run C q (x # xs) =
     (let (q1, out1, in1) = cq_step C q x;
          (q2, out2, in2) = cq_run C q1 xs
      in (q2, out1 @ out2, in1 @ in2))"

section \<open>Specification-side definitions\<close>

text \<open>
  The trap test in the words of the specification: an address is in a table's window when
  it lies in the 256 bytes from the table's base, and it is a slot of the table when its
  offset from the base is a multiple of 3 and at most the table's last offset.
\<close>

definition in_window :: "nat \<Rightarrow> nat \<Rightarrow> bool" where
  "in_window base p = (base \<le> p \<and> p < base + 256)"

definition valid_slot :: "nat \<Rightarrow> nat \<Rightarrow> nat \<Rightarrow> bool" where
  "valid_slot base last_offset p =
     (in_window base p \<and> (p - base) mod 3 = 0 \<and> p - base \<le> last_offset)"

text \<open>The test as the specification states it: a slot of either table.\<close>

definition is_trap_spec :: "nat \<Rightarrow> nat \<Rightarrow> nat \<Rightarrow> bool" where
  "is_trap_spec xb lb p = (valid_slot xb 0x48 p \<or> valid_slot lb 0x30 p)"

text \<open>The test as \<open>is_xios_call\<close> evaluates it: the full table's window is looked at
  first.\<close>

definition is_trap_prio :: "nat \<Rightarrow> nat \<Rightarrow> nat \<Rightarrow> bool" where
  "is_trap_prio xb lb p =
     (if in_window xb p then valid_slot xb 0x48 p else valid_slot lb 0x30 p)"

text \<open>
  The layout the specification's data model assumes: each table has its own window, so
  that a program counter maps to at most one table.
\<close>

definition windows_disjoint :: "'m xios \<Rightarrow> bool" where
  "windows_disjoint s =
     (unat (xios_base s) + 256 \<le> unat (ldrbios_base s)
      \<or> unat (ldrbios_base s) + 256 \<le> unat (xios_base s))"

text \<open>The three addresses as the constructor sets them; no handler changes them.\<close>

definition constructed_layout :: "'m xios \<Rightarrow> bool" where
  "constructed_layout s =
     (xios_base s = 0xFC00 \<and> ldrbios_base s = 0x1700 \<and> bdos_stub s = 0x0D06)"

text \<open>
  The slot a trap matches, by the windows alone: the table whose window holds the program
  counter and the offset from that table's base.
\<close>

datatype table = FullTable | BootstrapTable

definition matched_slot :: "'m xios \<Rightarrow> u16 \<Rightarrow> (table \<times> nat) option" where
  "matched_slot s pc =
     (let p = unat pc; xb = unat (xios_base s); lb = unat (ldrbios_base s)
      in if valid_slot xb 0x48 p then Some (FullTable, p - xb)
         else if valid_slot lb 0x30 p then Some (BootstrapTable, p - lb)
         else None)"

text \<open>The state a synthetic return leaves, given the stack pointer \<open>sp\<close> before it.\<close>

definition returned_from :: "'m env \<Rightarrow> u16 \<Rightarrow> 'm xios \<Rightarrow> bool" where
  "returned_from env sp s' =
     (SP (regs s') = sp + 2 \<and>
      PC (regs s') = push_bit 8 (ucast (fetch_mem env (mem s') (sp + 1)))
                       OR ucast (fetch_mem env (mem s') sp))"


text \<open>
  The entry-point table in the words of the specification: an ordered list of slots, slot
  \<open>i\<close> at offset \<open>3 * i\<close>, each mapped to one operation; the order is that of the jump
  table, from cold boot to idle.
\<close>

datatype handler =
    H_boot | H_wboot | H_const | H_conin | H_conout | H_list | H_punch | H_reader
  | H_home | H_seldsk | H_settrk | H_setsec | H_setdma | H_read | H_write | H_listst
  | H_sectran | H_selmemory | H_polldevice | H_startclock | H_stopclock | H_exitregion
  | H_maxconsole | H_systeminit | H_idle

fun run_handler :: "handler \<Rightarrow> 'm env \<Rightarrow> 'm xios \<Rightarrow> 'm xios" where
  "run_handler H_boot = do_boot"
| "run_handler H_wboot = do_wboot"
| "run_handler H_const = do_const"
| "run_handler H_conin = do_conin"
| "run_handler H_conout = do_conout"
| "run_handler H_list = do_list"
| "run_handler H_punch = do_punch"
| "run_handler H_reader = do_reader"
| "run_handler H_home = do_home"
| "run_handler H_seldsk = do_seldsk"
| "run_handler H_settrk = do_settrk"
| "run_handler H_setsec = do_setsec"
| "run_handler H_setdma = do_setdma"
| "run_handler H_read = do_read"
| "run_handler H_write = do_write"
| "run_handler H_listst = do_listst"
| "run_handler H_sectran = do_sectran"
| "run_handler H_selmemory = do_selmemory"
| "run_handler H_polldevice = do_polldevice"
| "run_handler H_startclock = do_startclock"
| "run_handler H_stopclock = do_stopclock"
| "run_handler H_exitregion = do_exitregion"
| "run_handler H_maxconsole = do_maxconsole"
| "run_handler H_systeminit = do_systeminit"
| "run_handler H_idle = do_idle"

definition slot_table :: "handler list" where
  "slot_table =
     [H_boot, H_wboot, H_const, H_conin, H_conout, H_list, H_punch, H_reader,
      H_home, H_seldsk, H_settrk, H_setsec, H_setdma, H_read, H_write, H_listst,
      H_sectran, H_selmemory, H_polldevice, H_startclock, H_stopclock, H_exitregion,
      H_maxconsole, H_systeminit, H_idle]"

definition slot_at :: "nat \<Rightarrow> handler option" where
  "slot_at offset =
     (if offset mod 3 = 0 \<and> offset div 3 < length slot_table
      then Some (slot_table ! (offset div 3)) else None)"

definition slot_handler :: "u16 \<Rightarrow> handler option" where
  "slot_handler offset = slot_at (unat offset)"

text \<open>The switch of \<open>handle_call\<close> read as a lookup in that table, still on the table
  and offset \<open>handle_call\<close> computes.\<close>

definition dispatch_by_offset :: "'m env \<Rightarrow> 'm xios \<Rightarrow> u16 \<Rightarrow> bool \<times> 'm xios" where
  "dispatch_by_offset env s pc =
     (if \<not> is_xios_call s pc then (False, s)
      else if is_ldrbios s pc \<and> call_offset s pc = XIOS_SELDSK then (False, s)
      else (case slot_handler (call_offset s pc) of
              None \<Rightarrow> (False, s)
            | Some h \<Rightarrow> (True, run_handler h env s)))"

text \<open>
  Calls of the three setters by the guest: the value is loaded into BC and the entry point
  is called. \<open>final_trk\<close>, \<open>final_sec\<close> and \<open>final_dma\<close> give the value of the last call
  of each setter in a sequence of calls, if there is one.
\<close>

datatype setter = SetTrk u16 | SetSec u16 | SetDma u16

definition load_BC :: "u16 \<Rightarrow> 'm xios \<Rightarrow> 'm xios" where
  "load_BC v s = s\<lparr>regs := (regs s)\<lparr>BC := v\<rparr>\<rparr>"

fun call_setter :: "'m env \<Rightarrow> 'm xios \<Rightarrow> setter \<Rightarrow> 'm xios" where
  "call_setter env s (SetTrk t) = do_settrk env (load_BC t s)"
| "call_setter env s (SetSec n) = do_setsec env (load_BC n s)"
| "call_setter env s (SetDma a) = do_setdma env (load_BC a s)"

fun call_setters :: "'m env \<Rightarrow> 'm xios \<Rightarrow> setter list \<Rightarrow> 'm xios" where
  "call_setters env s [] = s"
| "call_setters env s (c # cs) = call_setters env (call_setter env s c) cs"

fun final_trk :: "setter list \<Rightarrow> u16 option" where
  "final_trk [] = None"
| "final_trk (c # cs) =
     (case final_trk cs of
        Some t \<Rightarrow> Some t
      | None \<Rightarrow> (case c of SetTrk t \<Rightarrow> Some t | _ \<Rightarrow> None))"

fun final_sec :: "setter list \<Rightarrow> u16 option" where
  "final_sec [] = None"
| "final_sec (c # cs) =
     (case final_sec cs of
        Some n \<Rightarrow> Some n
      | None \<Rightarrow> (case c of SetSec n \<Rightarrow> Some n | _ \<Rightarrow> None))"

fun final_dma :: "setter list \<Rightarrow> u16 option" where
  "final_dma [] = None"
| "final_dma (c # cs) =
     (case final_dma cs of
        Some a \<Rightarrow> Some a
      | None \<Rightarrow> (case c of SetDma a \<Rightarrow> Some a | _ \<Rightarrow> None))"

text \<open>
  The bytes of guest memory at \<open>addr\<close>, \<open>addr + 1\<close>, ... (\<open>n\<close> of them, the address
  wrapping at 16 bits), and the string they hold up to the terminator \<open>$\<close> (0x24).
\<close>

definition guest_bytes :: "'m env \<Rightarrow> 'm \<Rightarrow> u16 \<Rightarrow> nat \<Rightarrow> u8 list" where
  "guest_bytes env m addr n = map (\<lambda>k. fetch_mem env m (addr + of_nat k)) [0..<n]"

definition dollar_string :: "'m env \<Rightarrow> 'm \<Rightarrow> u16 \<Rightarrow> nat \<Rightarrow> u8 list" where
  "dollar_string env m addr n = takeWhile (\<lambda>ch. ch \<noteq> 0x24) (guest_bytes env m addr n)"

section \<open>Concrete machines for the examples\<close>

definition regs0 :: z80_regs where
  "regs0 = \<lparr>AF = 0, BC = 0, DE = 0, HL = 0, SP = 0, PC = 0, IFF1 = 0, IFF2 = 0\<rparr>"

text \<open>A machine with the constructor's addresses, a stack at 0x0100 holding the return
  address 0x1234, and the string \<open>Hi$\<close> at 0x0200; an environment with four disks and
  one console.\<close>

definition mem0 :: "u16 \<Rightarrow> u8" where
  "mem0 a =
     (if a = 0x0100 then 0x34 else if a = 0x0101 then 0x12
      else if a = 0x0200 then 0x48 else if a = 0x0201 then 0x69
      else if a = 0x0202 then 0x24 else 0)"

definition env0 :: "(u16 \<Rightarrow> u8) env" where
  "env0 =
     \<lparr> fetch_mem = (\<lambda>m a. m a), select_bank = (\<lambda>m b. m),
       ds_select = (\<lambda>h d. d < 4), ds_read = (\<lambda>h m. (0, m)), ds_write = (\<lambda>h m. (0, m)),
       con_get = (\<lambda>h i. i = 0), con_const_status = (\<lambda>h i. 0),
       con_read_char = (\<lambda>h i. 0x1A), MAX_CONSOLES = 8 \<rparr>"

definition xios0 :: "(u16 \<Rightarrow> u8) xios" where
  "xios0 = XIOS_new (regs0\<lparr>SP := 0x0100, BC := 0x0002\<rparr>) mem0"

section \<open>Verified properties\<close>

subsection \<open>Recognising a trap\<close>

lemma is_xios_call_prio:
  "is_xios_call s pc = is_trap_prio (unat (xios_base s)) (unat (ldrbios_base s)) (unat pc)"
  by (auto simp: is_xios_call_def is_trap_prio_def valid_slot_def in_window_def Let_def
      XIOS_IDLE_def XIOS_SECTRAN_def word_le_nat_alt unat_sub)

lemma is_xios_call_disjoint:
  assumes "windows_disjoint s"
  shows "is_xios_call s pc \<longleftrightarrow>
           is_trap_spec (unat (xios_base s)) (unat (ldrbios_base s)) (unat pc)"
  using assms
  by (auto simp: is_xios_call_prio is_trap_prio_def is_trap_spec_def valid_slot_def
      in_window_def windows_disjoint_def)

lemma constructed_layout_disjoint: "constructed_layout s \<Longrightarrow> windows_disjoint s"
  by (simp add: constructed_layout_def windows_disjoint_def)

lemma XIOS_new_layout: "constructed_layout (XIOS_new cpu m)"
  by (simp add: constructed_layout_def XIOS_new_def)

text \<open>
  C1: where each table has its own window, \<open>is_xios_call pc\<close> holds exactly when \<open>pc\<close>
  is a slot of the full table (in \<open>[xios_base, xios_base + 256)\<close>, offset a multiple of 3
  and at most 0x48) or a slot of the bootstrap table (in
  \<open>[ldrbios_base, ldrbios_base + 256)\<close>, offset a multiple of 3 and at most 0x30), and is
  false for every other \<open>pc\<close>. The test never consults the bootstrap loader's
  system-call address, and with the addresses the constructor sets that address is not a
  trap.
\<close>

theorem is_xios_call_iff:
  "(windows_disjoint s \<longrightarrow>
      (is_xios_call s pc \<longleftrightarrow>
         is_trap_spec (unat (xios_base s)) (unat (ldrbios_base s)) (unat pc)))
   \<and> is_xios_call (s\<lparr>bdos_stub := b\<rparr>) pc = is_xios_call s pc
   \<and> (constructed_layout s \<longrightarrow>
        (is_xios_call s pc \<longleftrightarrow> is_trap_spec 0xFC00 0x1700 (unat pc))
        \<and> \<not> is_xios_call s (bdos_stub s))"
proof -
  have "is_xios_call (s\<lparr>bdos_stub := b\<rparr>) pc = is_xios_call s pc"
    by (simp add: is_xios_call_def)
  moreover have "is_xios_call s pc \<longleftrightarrow> is_trap_spec 0xFC00 0x1700 (unat pc)"
    if "constructed_layout s"
    using is_xios_call_disjoint [OF constructed_layout_disjoint [OF that], of pc] that
    by (simp add: constructed_layout_def)
  moreover have "\<not> is_xios_call s (bdos_stub s)" if "constructed_layout s"
    using that by (simp add: constructed_layout_def is_xios_call_def)
  ultimately show ?thesis
    using is_xios_call_disjoint [of s pc] by blast
qed

theorem is_xios_call_iff_witness:
  "windows_disjoint (XIOS_new regs0 ()) \<and> constructed_layout (XIOS_new regs0 ())
   \<and> is_xios_call (XIOS_new regs0 ()) 0xFC0C
   \<and> is_xios_call (XIOS_new regs0 ()) 0xFC48
   \<and> is_xios_call (XIOS_new regs0 ()) 0x1730
   \<and> \<not> is_xios_call (XIOS_new regs0 ()) 0x1733
   \<and> \<not> is_xios_call (XIOS_new regs0 ()) 0xFC4B
   \<and> \<not> is_xios_call (XIOS_new regs0 ()) 0xFC0D
   \<and> \<not> is_xios_call (XIOS_new regs0 ()) 0x0D06"
proof -
  have l: "constructed_layout (XIOS_new regs0 ())" "windows_disjoint (XIOS_new regs0 ())"
    "bdos_stub (XIOS_new regs0 ()) = 0x0D06" "xios_base (XIOS_new regs0 ()) = 0xFC00"
    "ldrbios_base (XIOS_new regs0 ()) = 0x1700"
    by (simp_all add: constructed_layout_def windows_disjoint_def XIOS_new_def)
  show ?thesis
    using is_xios_call_iff [of "XIOS_new regs0 ()" "0xFC0C" "0x0D06"]
      is_xios_call_iff [of "XIOS_new regs0 ()" "0xFC48" "0x0D06"]
      is_xios_call_iff [of "XIOS_new regs0 ()" "0x1730" "0x0D06"]
      is_xios_call_iff [of "XIOS_new regs0 ()" "0x1733" "0x0D06"]
      is_xios_call_iff [of "XIOS_new regs0 ()" "0xFC4B" "0x0D06"]
      is_xios_call_iff [of "XIOS_new regs0 ()" "0xFC0D" "0x0D06"]
    by (simp add: l is_trap_spec_def valid_slot_def in_window_def)
qed

lemmas XIOS_offsets =
  XIOS_BOOT_def XIOS_WBOOT_def XIOS_CONST_def XIOS_CONIN_def XIOS_CONOUT_def XIOS_LIST_def
  XIOS_PUNCH_def XIOS_READER_def XIOS_HOME_def XIOS_SELDSK_def XIOS_SETTRK_def
  XIOS_SETSEC_def XIOS_SETDMA_def XIOS_READ_def XIOS_WRITE_def XIOS_LISTST_def
  XIOS_SECTRAN_def XIOS_SELMEMORY_def XIOS_POLLDEVICE_def XIOS_STARTCLOCK_def
  XIOS_STOPCLOCK_def XIOS_EXITREGION_def XIOS_MAXCONSOLE_def XIOS_SYSTEMINIT_def
  XIOS_IDLE_def

subsection \<open>The synthetic return\<close>

lemma do_ret_returned:
  "SP (regs s1) = sp \<Longrightarrow> returned_from env sp (do_ret env s1)"
  by (simp add: returned_from_def do_ret_def Let_def)

lemma SP_AF_set_high [simp]: "SP (regs (AF_set_high v s)) = SP (regs s)"
  by (simp add: AF_set_high_def)

lemma SP_HL_set_pair16 [simp]: "SP (regs (HL_set_pair16 v s)) = SP (regs s)"
  by (simp add: HL_set_pair16_def)

lemma handlers_return:
  "returned_from env (SP (regs s)) (do_boot env s)"
  "returned_from env (SP (regs s)) (do_wboot env s)"
  "returned_from env (SP (regs s)) (do_const env s)"
  "returned_from env (SP (regs s)) (do_conin env s)"
  "returned_from env (SP (regs s)) (do_conout env s)"
  "returned_from env (SP (regs s)) (do_list env s)"
  "returned_from env (SP (regs s)) (do_punch env s)"
  "returned_from env (SP (regs s)) (do_reader env s)"
  "returned_from env (SP (regs s)) (do_home env s)"
  "returned_from env (SP (regs s)) (do_seldsk env s)"
  "returned_from env (SP (regs s)) (do_settrk env s)"
  "returned_from env (SP (regs s)) (do_setsec env s)"
  "returned_from env (SP (regs s)) (do_setdma env s)"
  "returned_from env (SP (regs s)) (do_read env s)"
  "returned_from env (SP (regs s)) (do_write env s)"
  "returned_from env (SP (regs s)) (do_listst env s)"
  "returned_from env (SP (regs s)) (do_sectran env s)"
  "returned_from env (SP (regs s)) (do_selmemory env s)"
  "returned_from env (SP (regs s)) (do_polldevice env s)"
  "returned_from env (SP (regs s)) (do_startclock env s)"
  "returned_from env (SP (regs s)) (do_stopclock env s)"
  "returned_from env (SP (regs s)) (do_exitregion env s)"
  "returned_from env (SP (regs s)) (do_maxconsole env s)"
  "returned_from env (SP (regs s)) (do_systeminit env s)"
  "returned_from env (SP (regs s)) (do_idle env s)"
  by (simp_all add: do_boot_def do_wboot_def do_const_def do_conin_def do_conout_def
      do_list_def do_punch_def do_reader_def do_home_def do_seldsk_def do_settrk_def
      do_setsec_def do_setdma_def do_read_def do_write_def do_listst_def do_sectran_def
      do_selmemory_def do_polldevice_def do_startclock_def do_stopclock_def
      do_exitregion_def do_maxconsole_def do_systeminit_def do_idle_def
      Let_def do_ret_returned split: prod.split)

lemma handle_call_returned:
  "(case handle_call env s pc of (b, s') \<Rightarrow> b \<longrightarrow> returned_from env (SP (regs s)) s')"
  unfolding handle_call_def Let_def
  by (simp add: handlers_return)

text \<open>
  C2: whenever \<open>handle_call\<close> returns true, the stack pointer has advanced by exactly 2 from
  its value at the call, and the program counter is the little-endian word that guest
  memory, as the handler left it, holds at that stack pointer: low byte at SP, high byte
  at SP+1.
\<close>

theorem handle_call_synthetic_return:
  assumes "fst (handle_call env s pc)"
  shows "SP (regs (snd (handle_call env s pc))) = SP (regs s) + 2
    \<and> PC (regs (snd (handle_call env s pc))) =
        push_bit 8 (ucast (fetch_mem env (mem (snd (handle_call env s pc))) (SP (regs s) + 1)))
          OR ucast (fetch_mem env (mem (snd (handle_call env s pc))) (SP (regs s)))"
  using handle_call_returned [of env s pc] assms
  by (cases "handle_call env s pc") (simp add: returned_from_def)

theorem handle_call_synthetic_return_witness:
  "fst (handle_call env0 xios0 0xFC1E)
   \<and> SP (regs (snd (handle_call env0 xios0 0xFC1E))) = 0x0102
   \<and> PC (regs (snd (handle_call env0 xios0 0xFC1E))) = 0x1234"
proof -
  have h: "handle_call env0 xios0 0xFC1E = (True, do_settrk env0 xios0)"
    by (simp add: handle_call_def is_xios_call_def call_offset_def is_ldrbios_def
        XIOS_offsets xios0_def XIOS_new_def)
  have m: "mem (do_settrk env0 xios0) = mem0" "SP (regs xios0) = 0x0100"
    by (simp_all add: do_settrk_def do_ret_def xios0_def XIOS_new_def regs0_def Let_def)
  have e: "fetch_mem env0 mem0 0x0101 = 0x12" "fetch_mem env0 mem0 0x0100 = 0x34"
    by (simp_all add: env0_def mem0_def)
  have "SP (regs (do_settrk env0 xios0)) = 0x0102
      \<and> PC (regs (do_settrk env0 xios0)) =
          push_bit 8 (ucast (fetch_mem env0 mem0 0x0101)) OR ucast (fetch_mem env0 mem0 0x0100)"
    using handle_call_synthetic_return [of env0 xios0 "0xFC1E"]
    by (simp add: h m)
  then show ?thesis
    by (simp add: h e)
qed

subsection \<open>What dispatch declines\<close>

lemma slot_nat_cases:
  "(n::nat) mod 3 = 0 \<Longrightarrow> n div 3 < 25 \<Longrightarrow>
     n \<in> {0, 3, 6, 9, 12, 15, 18, 21, 24, 27, 30, 33, 36, 39, 42, 45, 48, 51, 54, 57, 60,
          63, 66, 69, 72}"
  by (simp; presburger)

lemma slot_handler_Some:
  "slot_handler 0x00 = Some H_boot"
  "slot_handler 0x03 = Some H_wboot"
  "slot_handler 0x06 = Some H_const"
  "slot_handler 0x09 = Some H_conin"
  "slot_handler 0x0C = Some H_conout"
  "slot_handler 0x0F = Some H_list"
  "slot_handler 0x12 = Some H_punch"
  "slot_handler 0x15 = Some H_reader"
  "slot_handler 0x18 = Some H_home"
  "slot_handler 0x1B = Some H_seldsk"
  "slot_handler 0x1E = Some H_settrk"
  "slot_handler 0x21 = Some H_setsec"
  "slot_handler 0x24 = Some H_setdma"
  "slot_handler 0x27 = Some H_read"
  "slot_handler 0x2A = Some H_write"
  "slot_handler 0x2D = Some H_listst"
  "slot_handler 0x30 = Some H_sectran"
  "slot_handler 0x33 = Some H_selmemory"
  "slot_handler 0x36 = Some H_polldevice"
  "slot_handler 0x39 = Some H_startclock"
  "slot_handler 0x3C = Some H_stopclock"
  "slot_handler 0x3F = Some H_exitregion"
  "slot_handler 0x42 = Some H_maxconsole"
  "slot_handler 0x45 = Some H_systeminit"
  "slot_handler 0x48 = Some H_idle"
  by (simp_all add: slot_handler_def slot_at_def slot_table_def)

lemma slot_handler_None:
  assumes "offset \<notin> {0x00, 0x03, 0x06, 0x09, 0x0C, 0x0F, 0x12, 0x15, 0x18, 0x1B, 0x1E, 0x21,
      0x24, 0x27, 0x2A, 0x2D, 0x30, 0x33, 0x36, 0x39, 0x3C, 0x3F, 0x42, 0x45, 0x48}"
  shows "slot_handler offset = None"
proof (rule ccontr)
  assume "slot_handler offset \<noteq> None"
  then have m: "unat offset mod 3 = 0" and d: "unat offset div 3 < 25"
    by (auto simp: slot_handler_def slot_at_def slot_table_def split: if_splits)
  from slot_nat_cases [OF m d] have
    "(word_of_nat (unat offset) :: u16) \<in>
       word_of_nat ` {0, 3, 6, 9, 12, 15, 18, 21, 24, 27, 30, 33, 36, 39, 42, 45, 48, 51, 54,
          57, 60, 63, 66, 69, 72}"
    by (rule imageI)
  then have "offset \<in> {0x00, 0x03, 0x06, 0x09, 0x0C, 0x0F, 0x12, 0x15, 0x18, 0x1B, 0x1E, 0x21,
      0x24, 0x27, 0x2A, 0x2D, 0x30, 0x33, 0x36, 0x39, 0x3C, 0x3F, 0x42, 0x45, 0x48}"
    by simp
  with assms show False by blast
qed

text \<open>The switch of \<open>handle_call\<close> is the specification's table of slots.\<close>

lemma handle_call_by_offset: "handle_call env s pc = dispatch_by_offset env s pc"
  unfolding handle_call_def dispatch_by_offset_def Let_def XIOS_offsets
  by (simp add: slot_handler_Some slot_handler_None)

text \<open>
  Among the traps, the slot \<open>handle_call\<close> computes has no handler exactly when the trap
  lies at or beyond the end of the full table's window: a bootstrap slot placed above the
  full table, whose offset \<open>handle_call\<close> takes from the full table's base. With the
  bootstrap table below the full table this never happens.
\<close>

lemma slot_handler_in_table:
  "unat offset mod 3 = 0 \<Longrightarrow> offset \<le> 0x48 \<Longrightarrow> slot_handler offset \<noteq> None"
  by (simp add: slot_handler_def slot_at_def slot_table_def word_le_nat_alt; presburger)

lemma slot_handler_beyond: "0x100 \<le> offset \<Longrightarrow> slot_handler offset = None"
  by (simp add: slot_handler_def slot_at_def slot_table_def word_le_nat_alt; presburger)

lemma no_handler_iff:
  assumes "is_xios_call s pc"
  shows "slot_handler (call_offset s pc) = None \<longleftrightarrow> unat (xios_base s) + 256 \<le> unat pc"
proof (cases "xios_base s \<le> pc")
  case False
  with assms have "unat (pc - ldrbios_base s) mod 3 = 0" "pc - ldrbios_base s \<le> 0x48"
    by (auto simp: is_xios_call_def Let_def XIOS_SECTRAN_def word_le_nat_alt split: if_splits)
  then have "slot_handler (pc - ldrbios_base s) \<noteq> None"
    by (rule slot_handler_in_table)
  with False show ?thesis
    by (simp add: call_offset_def word_le_nat_alt)
next
  case True
  show ?thesis
  proof (cases "unat pc < unat (xios_base s) + 256")
    case inside: True
    with True assms have "unat (pc - xios_base s) mod 3 = 0" "pc - xios_base s \<le> 0x48"
      by (auto simp: is_xios_call_def Let_def XIOS_IDLE_def split: if_splits)
    then have "slot_handler (pc - xios_base s) \<noteq> None"
      by (rule slot_handler_in_table)
    with True inside show ?thesis
      by (simp add: call_offset_def)
  next
    case outside: False
    with True have "0x100 \<le> pc - xios_base s"
      by (simp add: word_le_nat_alt unat_sub)
    then have "slot_handler (pc - xios_base s) = None"
      by (rule slot_handler_beyond)
    with True outside show ?thesis
      by (simp add: call_offset_def)
  qed
qed

text \<open>
  Outside the layout of the constructed machine: a bootstrap slot that lies above the full
  table's window is a trap for \<open>is_xios_call\<close>, but \<open>handle_call\<close> takes its offset from
  the full table's base, finds no handler there and declines it.
\<close>

lemma bootstrap_above_full_declined:
  assumes "is_xios_call s pc" and "unat (xios_base s) + 256 \<le> unat pc"
  shows "handle_call env s pc = (False, s)"
  using assms no_handler_iff [OF assms(1)]
  by (simp add: handle_call_by_offset dispatch_by_offset_def)




lemma every_matched_slot_has_handler:
  "matched_slot s pc = Some (t, off) \<Longrightarrow> slot_at off \<noteq> None"
  by (auto simp: matched_slot_def Let_def valid_slot_def slot_at_def slot_table_def
      split: if_splits; presburger)




subsection \<open>Register and state facts shared by the handler proofs\<close>

lemma get_high_set_high [simp]: "get_high (set_high w b) = b"
  unfolding get_high_def set_high_def
  by (rule bit_word_eqI) (auto simp: bit_simps)

lemma do_ret_fields [simp]:
  "current_disk (do_ret env s) = current_disk s"
  "current_track (do_ret env s) = current_track s"
  "current_sector (do_ret env s) = current_sector s"
  "dma_addr (do_ret env s) = dma_addr s"
  "disk (do_ret env s) = disk s"
  "consoles (do_ret env s) = consoles s"
  "mem (do_ret env s) = mem s"
  "xios_base (do_ret env s) = xios_base s"
  "AF (regs (do_ret env s)) = AF (regs s)"
  "HL (regs (do_ret env s)) = HL (regs s)"
  "IFF1 (regs (do_ret env s)) = IFF1 (regs s)"
  "IFF2 (regs (do_ret env s)) = IFF2 (regs s)"
  by (simp_all add: do_ret_def Let_def)

lemma AF_set_high_fields [simp]:
  "current_disk (AF_set_high v s) = current_disk s"
  "disk (AF_set_high v s) = disk s"
  "consoles (AF_set_high v s) = consoles s"
  "AF (regs (AF_set_high v s)) = set_high (AF (regs s)) v"
  by (simp_all add: AF_set_high_def)

lemma HL_set_pair16_fields [simp]:
  "current_disk (HL_set_pair16 v s) = current_disk s"
  "HL (regs (HL_set_pair16 v s)) = v"
  by (simp_all add: HL_set_pair16_def)

text \<open>
  No handler writes the three addresses, so every state reached from the constructor
  through \<open>handle_call\<close> and \<open>do_bdos\<close> has the constructor's layout.
\<close>

lemma layout_do_ret [simp]: "constructed_layout (do_ret env s) = constructed_layout s"
  by (simp add: constructed_layout_def do_ret_def Let_def)

lemma layout_register_writes [simp]:
  "constructed_layout (AF_set_high v s) = constructed_layout s"
  "constructed_layout (HL_set_pair16 w s) = constructed_layout s"
  by (simp_all add: constructed_layout_def AF_set_high_def HL_set_pair16_def)

lemma layout_field_writes [simp]:
  "constructed_layout (s\<lparr>regs := r\<rparr>) = constructed_layout s"
  "constructed_layout (s\<lparr>mem := m\<rparr>) = constructed_layout s"
  "constructed_layout (s\<lparr>disk := d\<rparr>) = constructed_layout s"
  "constructed_layout (s\<lparr>consoles := c\<rparr>) = constructed_layout s"
  "constructed_layout (s\<lparr>current_disk := n\<rparr>) = constructed_layout s"
  "constructed_layout (s\<lparr>current_track := a\<rparr>) = constructed_layout s"
  "constructed_layout (s\<lparr>current_sector := a\<rparr>) = constructed_layout s"
  "constructed_layout (s\<lparr>dma_addr := a\<rparr>) = constructed_layout s"
  "constructed_layout (s\<lparr>tick_enabled := f\<rparr>) = constructed_layout s"
  by (simp_all add: constructed_layout_def)

lemma layout_run_handler: "constructed_layout (run_handler h env s) = constructed_layout s"
  by (cases h)
    (simp_all add: do_boot_def do_wboot_def do_const_def do_conin_def do_conout_def
      do_list_def do_punch_def do_reader_def do_home_def do_seldsk_def do_settrk_def
      do_setsec_def do_setdma_def do_read_def do_write_def do_listst_def do_sectran_def
      do_selmemory_def do_polldevice_def do_startclock_def do_stopclock_def
      do_exitregion_def do_maxconsole_def do_systeminit_def do_idle_def
      Let_def split: prod.split)

lemma layout_handle_call:
  "constructed_layout (snd (handle_call env s pc)) = constructed_layout s"
  by (simp add: handle_call_by_offset dispatch_by_offset_def layout_run_handler
      split: option.split)

lemma layout_do_bdos: "constructed_layout (do_bdos env s) = constructed_layout s"
  by (simp add: do_bdos_def Let_def)

lemma do_seldsk_rejected:
  "\<not> ds_select env (disk s) (get_low (BC (regs s))) \<Longrightarrow>
     HL (regs (do_seldsk env s)) = 0 \<and> current_disk (do_seldsk env s) = current_disk s"
  by (simp add: do_seldsk_def Let_def)

lemma do_seldsk_accepted:
  "ds_select env (disk s) (get_low (BC (regs s))) \<Longrightarrow>
     current_disk (do_seldsk env s) = get_low (BC (regs s))
     \<and> HL (regs (do_seldsk env s)) = xios_base s + 0x100 + 16 * ucast (get_low (BC (regs s)))"
  by (simp add: do_seldsk_def Let_def mult.commute)

lemma unat_ucast_u8: "unat (ucast (n :: u8) :: u16) = unat n"
proof -
  have "unat n < 2 ^ 16"
    using unsigned_less [of n, where 'a = nat] by simp
  then show ?thesis
    by (simp add: unsigned_ucast_eq take_bit_nat_eq_self)
qed

lemma unat_dph_addr:
  "unat (b + 0x100 + 16 * (ucast (n :: u8) :: u16)) = (unat b + 0x100 + 16 * unat n) mod 65536"
  by (simp add: unat_word_ariths unat_ucast_u8 mod_simps)

subsection \<open>Select disk\<close>

text \<open>
  C4: with disk number N in register C, a rejection by the disk engine leaves HL = 0 and
  \<open>current_disk\<close> as it was; an acceptance sets \<open>current_disk\<close> to N and HL to
  \<open>xios_base + 0x100 + 16 * N\<close>, the sum taken in the 16 bits of HL (N is not cut to 8
  bits by the multiplication).
\<close>

theorem do_seldsk_result:
  "(\<not> ds_select env (disk s) (get_low (BC (regs s))) \<longrightarrow>
      HL (regs (do_seldsk env s)) = 0 \<and> current_disk (do_seldsk env s) = current_disk s)
   \<and> (ds_select env (disk s) (get_low (BC (regs s))) \<longrightarrow>
      current_disk (do_seldsk env s) = get_low (BC (regs s))
      \<and> HL (regs (do_seldsk env s)) = xios_base s + 0x100 + 16 * ucast (get_low (BC (regs s)))
      \<and> unat (HL (regs (do_seldsk env s))) =
          (unat (xios_base s) + 0x100 + 16 * unat (get_low (BC (regs s)))) mod 65536)"
  using do_seldsk_rejected [of env s] do_seldsk_accepted [of env s]
  by (auto simp: unat_dph_addr)

theorem do_seldsk_result_witness:
  "ds_select env0 (disk xios0) (get_low (BC (regs xios0)))
   \<and> current_disk (do_seldsk env0 xios0) = 2
   \<and> HL (regs (do_seldsk env0 xios0)) = 0xFD20
   \<and> \<not> ds_select env0 (disk (xios0\<lparr>regs := regs0\<lparr>BC := 0x0009\<rparr>, current_disk := 3\<rparr>))
         (get_low (BC (regs (xios0\<lparr>regs := regs0\<lparr>BC := 0x0009\<rparr>, current_disk := 3\<rparr>))))
   \<and> HL (regs (do_seldsk env0 (xios0\<lparr>regs := regs0\<lparr>BC := 0x0009\<rparr>, current_disk := 3\<rparr>))) = 0
   \<and> current_disk (do_seldsk env0 (xios0\<lparr>regs := regs0\<lparr>BC := 0x0009\<rparr>, current_disk := 3\<rparr>)) = 3"
proof -
  have a: "ds_select env0 (disk xios0) (get_low (BC (regs xios0)))"
    "get_low (BC (regs xios0)) = 2" "xios_base xios0 = 0xFC00"
    by (simp_all add: env0_def xios0_def XIOS_new_def regs0_def get_low_def)
  have b: "\<not> ds_select env0 (disk (xios0\<lparr>regs := regs0\<lparr>BC := 0x0009\<rparr>, current_disk := 3\<rparr>))
         (get_low (BC (regs (xios0\<lparr>regs := regs0\<lparr>BC := 0x0009\<rparr>, current_disk := 3\<rparr>))))"
    by (simp add: env0_def xios0_def XIOS_new_def regs0_def get_low_def)
  show ?thesis
    using do_seldsk_result [of env0 xios0]
      do_seldsk_result [of env0 "xios0\<lparr>regs := regs0\<lparr>BC := 0x0009\<rparr>, current_disk := 3\<rparr>"]
      a b
    by simp
qed

subsection \<open>Leaving a critical region\<close>

text \<open>
  C8: \<open>do_exitregion\<close> sets both interrupt flip-flops to 1 when \<open>preempted\<close> is false, and
  leaves both exactly as they were when it is true.
\<close>

theorem do_exitregion_iff:
  "(\<not> preempted s \<longrightarrow>
      IFF1 (regs (do_exitregion env s)) = 1 \<and> IFF2 (regs (do_exitregion env s)) = 1)
   \<and> (preempted s \<longrightarrow>
      IFF1 (regs (do_exitregion env s)) = IFF1 (regs s)
      \<and> IFF2 (regs (do_exitregion env s)) = IFF2 (regs s))"
  by (simp add: do_exitregion_def)

theorem do_exitregion_iff_witness:
  "\<not> preempted xios0
   \<and> IFF1 (regs xios0) = 0 \<and> IFF2 (regs xios0) = 0
   \<and> IFF1 (regs (do_exitregion env0 xios0)) = 1
   \<and> IFF2 (regs (do_exitregion env0 xios0)) = 1
   \<and> preempted (xios0\<lparr>preempted := True\<rparr>)
   \<and> IFF1 (regs (do_exitregion env0 (xios0\<lparr>preempted := True\<rparr>))) = 0
   \<and> IFF2 (regs (do_exitregion env0 (xios0\<lparr>preempted := True\<rparr>))) = 0"
  using do_exitregion_iff [of xios0 env0] do_exitregion_iff [of "xios0\<lparr>preempted := True\<rparr>" env0]
  by (simp add: xios0_def XIOS_new_def regs0_def)

subsection \<open>Select disk in the bootstrap loader's system calls\<close>

lemma do_bdos_select:
  assumes "get_low (BC (regs s)) = 14"
  shows "current_disk (do_bdos env s) = ucast (DE (regs s) AND 0x0F)"
    and "get_high (AF (regs (do_bdos env s))) = 0"
    and "disk (do_bdos env s) = disk s @ [DSelect (ucast (DE (regs s) AND 0x0F))]"
  using assms by (simp_all add: do_bdos_def Let_def)

lemma unat_low_nibble: "unat (ucast ((w :: u16) AND 0x0F) :: u8) = unat w mod 16"
proof -
  have "w AND 0x0F = take_bit 4 w"
    by (simp add: take_bit_eq_mask mask_eq_exp_minus_1)
  then have "unat (ucast (w AND 0x0F) :: u8) = take_bit 8 (take_bit 4 (unat w))"
    by (simp add: unsigned_ucast_eq unsigned_take_bit_eq)
  then show ?thesis
    by (simp add: take_bit_eq_mod)
qed

text \<open>
  C10: function 14 of the bootstrap system calls sets \<open>current_disk\<close> to the low 4 bits
  of DE, passes that number to the disk engine's \<open>select\<close>, and returns A = 0, whatever
  the engine answers; the select-disk handler of the full table, on a rejection, leaves
  \<open>current_disk\<close> as it was and returns HL = 0.
\<close>

theorem do_bdos_select_disk:
  "(get_low (BC (regs s)) = 14 \<longrightarrow>
      current_disk (do_bdos env s) = ucast (DE (regs s) AND 0x0F)
      \<and> unat (current_disk (do_bdos env s)) = unat (DE (regs s)) mod 16
      \<and> disk (do_bdos env s) = disk s @ [DSelect (ucast (DE (regs s) AND 0x0F))]
      \<and> get_high (AF (regs (do_bdos env s))) = 0)
   \<and> (\<not> ds_select env (disk t) (get_low (BC (regs t))) \<longrightarrow>
      current_disk (do_seldsk env t) = current_disk t \<and> HL (regs (do_seldsk env t)) = 0)"
  using do_bdos_select [of s env] do_seldsk_rejected [of env t]
  by (simp add: unat_low_nibble)

theorem do_bdos_select_disk_witness:
  "get_low (BC (regs (xios0\<lparr>regs := regs0\<lparr>BC := 0x000E, DE := 0x1239\<rparr>\<rparr>))) = 14
   \<and> \<not> ds_select env0 (disk xios0) 9
   \<and> current_disk (do_bdos env0 (xios0\<lparr>regs := regs0\<lparr>BC := 0x000E, DE := 0x1239\<rparr>\<rparr>)) = 9
   \<and> disk (do_bdos env0 (xios0\<lparr>regs := regs0\<lparr>BC := 0x000E, DE := 0x1239\<rparr>\<rparr>)) = [DSelect 9]
   \<and> get_high (AF (regs (do_bdos env0 (xios0\<lparr>regs := regs0\<lparr>BC := 0x000E, DE := 0x1239\<rparr>\<rparr>)))) = 0
   \<and> current_disk (do_seldsk env0 (xios0\<lparr>regs := regs0\<lparr>BC := 0x0009\<rparr>, current_disk := 3\<rparr>)) = 3
   \<and> HL (regs (do_seldsk env0 (xios0\<lparr>regs := regs0\<lparr>BC := 0x0009\<rparr>, current_disk := 3\<rparr>))) = 0"
proof -
  have a: "get_low (BC (regs (xios0\<lparr>regs := regs0\<lparr>BC := 0x000E, DE := 0x1239\<rparr>\<rparr>))) = 14"
    "\<not> ds_select env0 (disk xios0) 9"
    "DE (regs (xios0\<lparr>regs := regs0\<lparr>BC := 0x000E, DE := 0x1239\<rparr>\<rparr>)) = 0x1239"
    "disk (xios0\<lparr>regs := regs0\<lparr>BC := 0x000E, DE := 0x1239\<rparr>\<rparr>) = []"
    "\<not> ds_select env0 (disk (xios0\<lparr>regs := regs0\<lparr>BC := 0x0009\<rparr>, current_disk := 3\<rparr>))
         (get_low (BC (regs (xios0\<lparr>regs := regs0\<lparr>BC := 0x0009\<rparr>, current_disk := 3\<rparr>))))"
    "current_disk (xios0\<lparr>regs := regs0\<lparr>BC := 0x0009\<rparr>, current_disk := 3\<rparr>) = 3"
    by (simp_all add: env0_def xios0_def XIOS_new_def regs0_def get_low_def)
  have "current_disk (do_bdos env0 (xios0\<lparr>regs := regs0\<lparr>BC := 0x000E, DE := 0x1239\<rparr>\<rparr>))
          = ucast ((0x1239 :: u16) AND 0x0F)
      \<and> disk (do_bdos env0 (xios0\<lparr>regs := regs0\<lparr>BC := 0x000E, DE := 0x1239\<rparr>\<rparr>))
          = [] @ [DSelect (ucast ((0x1239 :: u16) AND 0x0F))]
      \<and> get_high (AF (regs (do_bdos env0 (xios0\<lparr>regs := regs0\<lparr>BC := 0x000E, DE := 0x1239\<rparr>\<rparr>)))) = 0
      \<and> current_disk (do_seldsk env0 (xios0\<lparr>regs := regs0\<lparr>BC := 0x0009\<rparr>, current_disk := 3\<rparr>)) = 3
      \<and> HL (regs (do_seldsk env0 (xios0\<lparr>regs := regs0\<lparr>BC := 0x0009\<rparr>, current_disk := 3\<rparr>))) = 0"
    using do_bdos_select_disk [of "xios0\<lparr>regs := regs0\<lparr>BC := 0x000E, DE := 0x1239\<rparr>\<rparr>" env0
        "xios0\<lparr>regs := regs0\<lparr>BC := 0x0009\<rparr>, current_disk := 3\<rparr>"] a
    unfolding a by blast
  then show ?thesis
    using a(1,2) by simp
qed

subsection \<open>Latching track, sector and DMA address\<close>

lemma call_setter_fields:
  "disk (call_setter env s c) = disk s"
  "current_track (call_setter env s c) = (case c of SetTrk t \<Rightarrow> t | _ \<Rightarrow> current_track s)"
  "current_sector (call_setter env s c) = (case c of SetSec n \<Rightarrow> n | _ \<Rightarrow> current_sector s)"
  "dma_addr (call_setter env s c) = (case c of SetDma a \<Rightarrow> a | _ \<Rightarrow> dma_addr s)"
  by (cases c; simp add: do_settrk_def do_setsec_def do_setdma_def load_BC_def)+

lemma call_setters_disk: "disk (call_setters env s cs) = disk s"
  by (induction cs arbitrary: s) (simp_all add: call_setter_fields del: call_setter.simps)

lemma call_setters_track:
  "current_track (call_setters env s cs) =
     (case final_trk cs of Some t \<Rightarrow> t | None \<Rightarrow> current_track s)"
proof (induction cs arbitrary: s)
  case Nil
  show ?case by simp
next
  case (Cons c cs)
  show ?case
    by (simp add: Cons.IH call_setter_fields del: call_setter.simps
        split: option.split setter.split)
qed

lemma call_setters_sector:
  "current_sector (call_setters env s cs) =
     (case final_sec cs of Some n \<Rightarrow> n | None \<Rightarrow> current_sector s)"
proof (induction cs arbitrary: s)
  case Nil
  show ?case by simp
next
  case (Cons c cs)
  show ?case
    by (simp add: Cons.IH call_setter_fields del: call_setter.simps
        split: option.split setter.split)
qed

lemma call_setters_dma:
  "dma_addr (call_setters env s cs) =
     (case final_dma cs of Some a \<Rightarrow> a | None \<Rightarrow> dma_addr s)"
proof (induction cs arbitrary: s)
  case Nil
  show ?case by simp
next
  case (Cons c cs)
  show ?case
    by (simp add: Cons.IH call_setter_fields del: call_setter.simps
        split: option.split setter.split)
qed

lemma do_read_disk:
  "disk (do_read env s) =
     disk s @ [DSetTrack (current_track s), DSetSector (current_sector s),
               DSetDma (dma_addr s), DRead]"
  by (simp add: do_read_def Let_def split: prod.split)

text \<open>
  C5: after any sequence of set-track, set-sector and set-dma calls in which T, S and D
  are the values of the last call of each, the read handler makes exactly four calls on
  the disk engine: \<open>set_track(T)\<close>, \<open>set_sector(S)\<close>, \<open>set_dma(D)\<close>, then the transfer.
  The order of the setters among themselves and earlier calls of the same setter do not
  matter.
\<close>

theorem setters_then_read:
  assumes "final_trk cs = Some T" and "final_sec cs = Some S" and "final_dma cs = Some D"
  shows "disk (do_read env (call_setters env s cs)) =
           disk s @ [DSetTrack T, DSetSector S, DSetDma D, DRead]"
  using assms
  by (simp add: do_read_disk call_setters_disk call_setters_track call_setters_sector
      call_setters_dma)

theorem setters_then_read_witness:
  "disk (do_read env0 (call_setters env0 xios0 [SetTrk 5, SetSec 7, SetDma 0x80])) =
     [DSetTrack 5, DSetSector 7, DSetDma 0x80, DRead]
   \<and> disk (do_read env0 (call_setters env0 xios0 [SetDma 0x80, SetSec 7, SetTrk 5])) =
     [DSetTrack 5, DSetSector 7, DSetDma 0x80, DRead]
   \<and> disk (do_read env0 (call_setters env0 xios0 [SetSec 7, SetTrk 5, SetDma 0x80])) =
     [DSetTrack 5, DSetSector 7, DSetDma 0x80, DRead]
   \<and> disk (do_read env0
        (call_setters env0 xios0 [SetTrk 1, SetDma 0x100, SetSec 7, SetTrk 5, SetDma 0x80])) =
     [DSetTrack 5, DSetSector 7, DSetDma 0x80, DRead]"
proof -
  have d: "disk xios0 = []"
    by (simp add: xios0_def XIOS_new_def)
  show ?thesis
    using setters_then_read [of "[SetTrk 5, SetSec 7, SetDma 0x80]" 5 7 "0x80" env0 xios0]
      setters_then_read [of "[SetDma 0x80, SetSec 7, SetTrk 5]" 5 7 "0x80" env0 xios0]
      setters_then_read [of "[SetSec 7, SetTrk 5, SetDma 0x80]" 5 7 "0x80" env0 xios0]
      setters_then_read [of "[SetTrk 1, SetDma 0x100, SetSec 7, SetTrk 5, SetDma 0x80]"
        5 7 "0x80" env0 xios0]
    by (simp add: d)
qed

subsection \<open>Print string\<close>

lemma guest_bytes_Suc:
  "guest_bytes env m addr (Suc n) = fetch_mem env m addr # guest_bytes env m (addr + 1) n"
proof -
  have "[0..<Suc n] = 0 # map Suc [0..<n]"
    by (simp add: upt_conv_Cons map_Suc_upt del: upt_Suc)
  then show ?thesis
    by (simp add: guest_bytes_def comp_def add.assoc del: upt_Suc)
qed

lemma print_string_eq:
  "i \<le> 1000 \<Longrightarrow>
   print_string env m i addr c =
     (addr + of_nat (min (1000 - i) (Suc (length (dollar_string env m addr (1000 - i))))),
      c @ map (ConWrite 0) (dollar_string env m addr (1000 - i)))"
proof (induction env m i addr c rule: print_string.induct)
  case (1 env m i addr c)
  show ?case
  proof (cases "i < 1000")
    case False
    with "1.prems" have "i = 1000" by simp
    then show ?thesis
      by (simp add: print_string.simps [of env m 1000] dollar_string_def guest_bytes_def)
  next
    case True
    then obtain n where n: "1000 - i = Suc n"
      by (cases "1000 - i") auto
    then have n': "1000 - (i + 1) = n" "999 - i = n" by simp_all
    show ?thesis
    proof (cases "fetch_mem env m addr = 0x24")
      case stop: True
      with True show ?thesis
        by (simp add: print_string.simps [of env m i] n dollar_string_def guest_bytes_Suc)
    next
      case go: False
      have "print_string env m (i + 1) (addr + 1) (c @ [ConWrite 0 (fetch_mem env m addr)]) =
              (addr + 1 + of_nat (min n (Suc (length (dollar_string env m (addr + 1) n)))),
               (c @ [ConWrite 0 (fetch_mem env m addr)])
                 @ map (ConWrite 0) (dollar_string env m (addr + 1) n))"
        using "1.IH" [OF True refl refl go] True by (simp add: n')
      with True go show ?thesis
        by (simp add: print_string.simps [of env m i] n dollar_string_def guest_bytes_Suc
            Let_def)
    qed
  qed
qed

lemma unat_of_nat_small: "n \<le> 1000 \<Longrightarrow> unat (of_nat n :: u16) = n"
  by (simp add: unat_of_nat)

text \<open>
  C9: started at address \<open>de\<close>, the print-string loop writes to console 0 the guest bytes
  at \<open>de\<close>, \<open>de + 1\<close>, ... in that order, up to and without the first \<open>$\<close> among the
  first 1000; it fetches one byte more than it writes when it stops at a \<open>$\<close>, so at
  most 1000 bytes in all, and it always returns (the loop is a total function). Within
  \<open>do_bdos\<close>, function 9 makes exactly these calls on console 0 when the console exists
  and none otherwise.
\<close>

theorem print_string_bounded:
  "print_string env m 0 de c =
     (de + of_nat (min 1000 (Suc (length (dollar_string env m de 1000)))),
      c @ map (ConWrite 0) (dollar_string env m de 1000))
   \<and> unat (fst (print_string env m 0 de c) - de) \<le> 1000
   \<and> length (dollar_string env m de 1000) \<le> 1000
   \<and> (get_low (BC (regs s)) = 9 \<longrightarrow>
        consoles (do_bdos env s) =
          (if con_get env (consoles s) 0
           then consoles s @ map (ConWrite 0) (dollar_string env (mem s) (DE (regs s)) 1000)
           else consoles s))"
proof -
  have p: "print_string env m 0 de c =
     (de + of_nat (min 1000 (Suc (length (dollar_string env m de 1000)))),
      c @ map (ConWrite 0) (dollar_string env m de 1000))" for m de c
    using print_string_eq [of 0 env m de c] by simp
  have "fst (print_string env m 0 de c) - de =
          of_nat (min 1000 (Suc (length (dollar_string env m de 1000))))"
    by (simp only: p fst_conv add_diff_cancel_left')
  then have "unat (fst (print_string env m 0 de c) - de) \<le> 1000"
    by (simp only: unat_of_nat_small [OF min.cobounded1] min.cobounded1)
  moreover have "length (dollar_string env m de 1000) \<le> 1000"
    using length_takeWhile_le [of "\<lambda>ch. ch \<noteq> 0x24" "guest_bytes env m de 1000"]
    by (simp add: dollar_string_def guest_bytes_def)
  moreover have "get_low (BC (regs s)) = 9 \<longrightarrow>
        consoles (do_bdos env s) =
          (if con_get env (consoles s) 0
           then consoles s @ map (ConWrite 0) (dollar_string env (mem s) (DE (regs s)) 1000)
           else consoles s)"
    by (simp add: do_bdos_def Let_def p)
  ultimately show ?thesis
    using p by blast
qed

theorem print_string_bounded_witness:
  "get_low (BC (regs (xios0\<lparr>regs := regs0\<lparr>BC := 0x0009, DE := 0x0200\<rparr>\<rparr>))) = 9
   \<and> con_get env0 [] 0
   \<and> consoles (do_bdos env0 (xios0\<lparr>regs := regs0\<lparr>BC := 0x0009, DE := 0x0200\<rparr>\<rparr>)) =
       [ConWrite 0 0x48, ConWrite 0 0x69]
   \<and> print_string env0 mem0 0 0x0200 [] = (0x0203, [ConWrite 0 0x48, ConWrite 0 0x69])"
proof -
  have a: "get_low (BC (regs (xios0\<lparr>regs := regs0\<lparr>BC := 0x0009, DE := 0x0200\<rparr>\<rparr>))) = 9"
    "con_get env0 [] 0"
    "consoles (xios0\<lparr>regs := regs0\<lparr>BC := 0x0009, DE := 0x0200\<rparr>\<rparr>) = []"
    "mem (xios0\<lparr>regs := regs0\<lparr>BC := 0x0009, DE := 0x0200\<rparr>\<rparr>) = mem0"
    "DE (regs (xios0\<lparr>regs := regs0\<lparr>BC := 0x0009, DE := 0x0200\<rparr>\<rparr>)) = 0x0200"
    by (simp_all add: env0_def xios0_def XIOS_new_def regs0_def get_low_def)
  have n: "(1000::nat) = Suc (Suc (Suc 997))" by simp
  have g: "dollar_string env0 mem0 0x0200 1000 = [0x48, 0x69]"
    unfolding dollar_string_def n guest_bytes_Suc
    by (simp add: env0_def mem0_def)
  show ?thesis
    using print_string_bounded [of env0 mem0 "0x0200" "[]"
        "xios0\<lparr>regs := regs0\<lparr>BC := 0x0009, DE := 0x0200\<rparr>\<rparr>"]
    unfolding a g by (simp add: a)
qed

subsection \<open>The console channel\<close>

lemma write_some_loop_eq:
  "write_some_loop C data n q =
     (n + min (length data) (C - length q), q @ take (min (length data) (C - length q)) data)"
proof (induction data arbitrary: n q)
  case Nil
  show ?case by simp
next
  case (Cons d ds)
  show ?case
  proof (cases "length q < C")
    case False
    then show ?thesis by simp
  next
    case True
    then have "min (Suc (length ds)) (C - length q) = Suc (min (length ds) (C - Suc (length q)))"
      by simp
    with True show ?thesis
      by (simp add: Cons.IH)
  qed
qed

lemma read_some_eq: "read_some q n = (take n q, drop n q)"
proof (induction n arbitrary: q)
  case 0
  show ?case by simp
next
  case (Suc n)
  show ?case
    by (cases q) (simp_all add: Suc.IH)
qed

lemma clear_eq: "clear q = []"
  by (induction q) simp_all

lemma cq_step_bounded:
  "length q \<le> C \<Longrightarrow> length (fst (cq_step C q x)) \<le> C"
  by (cases x)
    (auto simp: try_read_def read_def try_write_def write_def write_some_def
      write_some_loop_eq read_some_eq clear_eq split: option.splits if_splits)

lemma cq_run_bounded:
  "length q \<le> C \<Longrightarrow> length (fst (cq_run C q ops)) \<le> C"
proof (induction ops arbitrary: q)
  case Nil
  then show ?case by simp
next
  case (Cons x xs)
  from Cons.prems have "length (fst (cq_step C q x)) \<le> C"
    by (rule cq_step_bounded)
  then have "length (fst (cq_run C (fst (cq_step C q x)) xs)) \<le> C"
    by (rule Cons.IH)
  then show ?case
    by (simp add: split_beta)
qed

lemma uint_not_minus_one: "uint (b :: u8) \<noteq> - 1"
proof
  assume "uint b = - 1"
  then have "uint b < 0" by simp
  then show False by simp
qed

lemma byte_of_uint: "word_of_int (uint (b :: u8)) = b" "uint b \<noteq> - 1"
  by (simp_all add: uint_not_minus_one)

lemma cq_step_fifo:
  assumes "x \<noteq> Clear"
  shows "q @ snd (snd (cq_step C q x)) = fst (snd (cq_step C q x)) @ fst (cq_step C q x)"
proof (cases x)
  case TryRead
  then show ?thesis
    by (cases q) (simp_all add: try_read_def byte_of_uint)
next
  case (Read t)
  then show ?thesis
    by (cases q) (simp_all add: read_def byte_of_uint)
next
  case (TryWrite ch)
  then show ?thesis
    by (simp add: try_write_def)
next
  case (Write ch t)
  then show ?thesis
    by (simp add: write_def)
next
  case (WriteSome data)
  then show ?thesis
    by (simp add: write_some_def write_some_loop_eq)
next
  case (ReadSome n)
  then show ?thesis
    by (simp add: read_some_eq)
next
  case Clear
  with assms show ?thesis by simp
qed

lemma cq_run_fifo:
  "Clear \<notin> set ops \<Longrightarrow>
     q @ snd (snd (cq_run C q ops)) = fst (snd (cq_run C q ops)) @ fst (cq_run C q ops)"
proof (induction ops arbitrary: q)
  case Nil
  show ?case by simp
next
  case (Cons x xs)
  then have x: "x \<noteq> Clear" and xs: "Clear \<notin> set xs"
    by auto
  let ?q1 = "fst (cq_step C q x)"
  have "q @ snd (snd (cq_step C q x)) @ snd (snd (cq_run C ?q1 xs)) =
          fst (snd (cq_step C q x)) @ ?q1 @ snd (snd (cq_run C ?q1 xs))"
    using cq_step_fifo [OF x, of q C] by simp
  also have "\<dots> = fst (snd (cq_step C q x)) @ fst (snd (cq_run C ?q1 xs)) @ fst (cq_run C ?q1 xs)"
    using Cons.IH [OF xs, of ?q1] by simp
  finally show ?case
    by (simp add: split_beta)
qed

text \<open>
  C6: from the empty channel the constructor builds, after any sequence of \<open>try_read\<close>,
  \<open>read\<close>, \<open>try_write\<close>, \<open>write\<close>, \<open>write_some\<close>, \<open>read_some\<close> and \<open>clear\<close> steps, the
  channel holds at most \<open>CAPACITY\<close> bytes and \<open>available() + space()\<close> is \<open>CAPACITY\<close>.
\<close>

theorem available_plus_space:
  "length (fst (cq_run C [] ops)) \<le> C
   \<and> available (fst (cq_run C [] ops)) + space C (fst (cq_run C [] ops)) = C"
proof -
  have "length (fst (cq_run C [] ops)) \<le> C"
    by (rule cq_run_bounded) simp
  then show ?thesis
    by (simp add: available_def space_def)
qed

theorem available_plus_space_witness:
  "fst (cq_run 2 [] [TryWrite 1, Write 2 0, TryWrite 3, WriteSome [4, 5], TryRead]) = [2]
   \<and> available [2] + space 2 [2] = 2"
proof -
  have e: "fst (cq_run 2 [] [TryWrite 1, Write 2 0, TryWrite 3, WriteSome [4, 5], TryRead]) = [2]"
    by (simp add: try_write_def write_def write_some_def try_read_def)
  show ?thesis
    using available_plus_space [of 2 "[TryWrite 1, Write 2 0, TryWrite 3, WriteSome [4, 5], TryRead]"]
    unfolding e by simp
qed

text \<open>
  C7: in any history without \<open>clear\<close>, the bytes the channel held at the start followed by
  the bytes the writers put in are the bytes the readers got followed by the bytes still
  queued, in the same order; a byte written by \<open>try_write\<close> to an empty channel is what the
  next \<open>try_read\<close> or \<open>read\<close> returns; and \<open>try_write\<close> on a full channel returns false
  with the contents unchanged (it has no wait in it).
\<close>

theorem channel_fifo:
  "(Clear \<notin> set ops \<longrightarrow>
      q @ snd (snd (cq_run C q ops)) = fst (snd (cq_run C q ops)) @ fst (cq_run C q ops))
   \<and> (fst (try_write C [] b) \<longrightarrow>
        try_read (snd (try_write C [] b)) = (uint b, [])
        \<and> read (snd (try_write C [] b)) t = Some (uint b, []))
   \<and> (full C q \<longrightarrow> try_write C q b = (False, q))"
  using cq_run_fifo [of ops q C]
  by (simp add: try_write_def try_read_def read_def full_def)

theorem channel_fifo_witness:
  "Clear \<notin> set [TryWrite 1, TryWrite 2, TryRead, TryWrite 3, TryWrite 4, ReadSome 1]
   \<and> cq_run 2 [] [TryWrite 1, TryWrite 2, TryRead, TryWrite 3, TryWrite 4, ReadSome 1] =
       ([3], [1, 2], [1, 2, 3])
   \<and> fst (try_write 2 [] 7)
   \<and> try_read (snd (try_write 2 [] 7)) = (7, [])
   \<and> full 2 [1, 2]
   \<and> try_write 2 [1, 2] 7 = (False, [1, 2])"
proof -
  have e: "cq_run 2 [] [TryWrite 1, TryWrite 2, TryRead, TryWrite 3, TryWrite 4, ReadSome 1] =
       ([3], [1, 2], [1, 2, 3])"
    by (simp add: try_write_def try_read_def)
  have f: "fst (try_write 2 [] 7)" "full 2 [1, 2]"
    by (simp_all add: try_write_def full_def)
  show ?thesis
    using channel_fifo [of "[TryWrite 1, TryWrite 2, TryRead, TryWrite 3, TryWrite 4, ReadSome 1]"
        "[]" 2 7 0]
      channel_fifo [of "[]" "[1, 2]" 2 7 0] e f
    by simp
qed

end
